theory Spec2Isabelle
  imports Complex_Main "HOL-Library.Log_Nat"
begin

section \<open>Job service of the automation backend\<close>

text \<open>
  A shallow embedding of \<^verbatim>\<open>backend/app/services/job_service.py\<close> over the tables of
  \<^verbatim>\<open>backend/app/models.py\<close>. A table is the list of its rows in insertion order; the
  database session is an explicit store that every service call takes and returns.
  Whatever a call reads from its environment is an argument: the clock reading of
  \<^verbatim>\<open>datetime.utcnow()\<close> and the token of \<^verbatim>\<open>uuid.uuid4()\<close>. An exception of the
  source is the \<open>Inl\<close> branch of the result, returned with the store as the failed
  transaction leaves it.
\<close>

subsection \<open>Tables\<close>

text \<open>The status column of a job: the five values of the \<^verbatim>\<open>job_status\<close> enum.\<close>

datatype job_status = Pending | Running | Success | Failed | Cancelled

text \<open>A reading of the UTC clock.\<close>

type_synonym datetime = nat

text \<open>Of a playbook and a server the job service reads the name and the activation flag.\<close>

record playbook =
  playbook_name :: string
  playbook_is_active :: bool

record server =
  server_hostname :: string
  server_is_active :: bool

text \<open>
  A row of \<^verbatim>\<open>jobs\<close>. \<open>job_pk\<close> is the column \<^verbatim>\<open>Job.id\<close> (the primary key) and
  \<open>job_id\<close> the column \<^verbatim>\<open>Job.job_id\<close> (the UUID shown to clients). A nullable column
  is an option.
\<close>

record job =
  job_pk :: int
  job_id :: string
  playbook_id :: int
  server_id :: int
  user_id :: int
  status :: job_status
  celery_task_id :: "string option"
  extra_vars :: "(string \<times> string) list"
  error_message :: "string option"
  started_at :: "datetime option"
  completed_at :: "datetime option"
  created_at :: datetime

text \<open>A row of \<^verbatim>\<open>job_logs\<close>; \<open>log_pk\<close> is \<^verbatim>\<open>JobLog.id\<close>, \<open>log_job_id\<close> is
  \<^verbatim>\<open>JobLog.job_id\<close>.\<close>

record job_log =
  log_pk :: int
  log_job_id :: int
  line_number :: int
  content :: string
  log_level :: "string option"
  log_timestamp :: datetime

text \<open>A row of \<^verbatim>\<open>audit_logs\<close>, with the columns that \<^verbatim>\<open>_create_audit_log\<close> fills.\<close>

record audit_log =
  audit_user_id :: int
  audit_action :: string
  audit_resource_type :: string
  audit_resource_id :: int
  audit_details :: "(string \<times> string) list"

text \<open>
  The database as the job service sees it: the primary keys of the user rows, the two
  registries it only reads, and the three tables it writes.
\<close>

record store =
  users :: "int list"
  playbooks :: "int \<rightharpoonup> playbook"
  servers :: "int \<rightharpoonup> server"
  jobs :: "job list"
  job_logs :: "job_log list"
  audit_logs :: "audit_log list"

text \<open>
  The exceptions a call can end in. The three \<^verbatim>\<open>ValueError\<close>s of the service carry the
  id that their message formats:
  \<^item> \<open>JobNotFound i\<close> is \<^verbatim>\<open>ValueError("Job with ID i not found")\<close>;
  \<^item> \<open>PlaybookNotFoundOrInactive i\<close> is
    \<^verbatim>\<open>ValueError("Playbook with ID i not found or inactive")\<close>;
  \<^item> \<open>ServerNotFoundOrInactive i\<close> is
    \<^verbatim>\<open>ValueError("Server with ID i not found or inactive")\<close>.
  The other three come from the database (MySQL 8 with InnoDB, as \<^verbatim>\<open>models.py\<close> says):
  \<open>IntegrityError\<close> when a commit breaks the unique index on \<^verbatim>\<open>jobs.job_id\<close> or a
  foreign key, \<open>DataError\<close> when a number does not fit its column, \<open>ProgrammingError\<close>
  when a query has a negative \<^verbatim>\<open>LIMIT\<close>.
\<close>

datatype error =
    JobNotFound int
  | PlaybookNotFoundOrInactive int
  | ServerNotFoundOrInactive int
  | IntegrityError
  | DataError
  | ProgrammingError

subsection \<open>Python truth values\<close>

text \<open>\<^verbatim>\<open>if x:\<close> on an optional string: \<^verbatim>\<open>None\<close> and the empty string are false.\<close>

definition truthy_str :: "string option \<Rightarrow> bool" where
  "truthy_str v = (case v of None \<Rightarrow> False | Some x \<Rightarrow> x \<noteq> [])"

text \<open>\<^verbatim>\<open>if x:\<close> on an optional integer: \<^verbatim>\<open>None\<close> and \<^verbatim>\<open>0\<close> are false.\<close>

definition truthy_int :: "int option \<Rightarrow> bool" where
  "truthy_int v = (case v of None \<Rightarrow> False | Some n \<Rightarrow> n \<noteq> 0)"

subsection \<open>The session\<close>

text \<open>
  The numbers a \<^verbatim>\<open>db.Integer\<close> column holds: MySQL's \<^verbatim>\<open>INT\<close> is a signed 32-bit
  integer, and a number outside it is refused when the row is written.
\<close>

definition in_int_column :: "int \<Rightarrow> bool" where
  "in_int_column n = (- 2147483648 \<le> n \<and> n \<le> 2147483647)"

text \<open>An auto-increment primary key: one more than the largest key of the table (rows are
  never deleted by the job service).\<close>

definition next_pk :: "int list \<Rightarrow> int" where
  "next_pk ks = fold max ks 0 + 1"

text \<open>\<^verbatim>\<open>Job.query.get(job_id)\<close>: the row with that primary key, or \<^verbatim>\<open>None\<close>.\<close>

definition get_job :: "store \<Rightarrow> int \<Rightarrow> job option" where
  "get_job s i = find (\<lambda>r. job_pk r = i) (jobs s)"

text \<open>The \<^verbatim>\<open>UPDATE\<close> that a commit issues for a modified job object.\<close>

definition put_job :: "store \<Rightarrow> job \<Rightarrow> store" where
  "put_job s j = s\<lparr>jobs := map (\<lambda>r. if job_pk r = job_pk j then j else r) (jobs s)\<rparr>"

text \<open>
  \<^verbatim>\<open>_create_audit_log\<close>: adds one audit row and commits. \<^verbatim>\<open>audit_logs.user_id\<close> is a
  foreign key to \<^verbatim>\<open>users.id\<close>, so the commit fails for a user that does not exist.
\<close>

definition create_audit_log ::
  "store \<Rightarrow> int \<Rightarrow> string \<Rightarrow> int \<Rightarrow> (string \<times> string) list \<Rightarrow> (error + unit) \<times> store" where
  "create_audit_log s uid act rid det =
     (if uid \<in> set (users s)
      then (Inr (),
            s\<lparr>audit_logs := audit_logs s @
               [\<lparr>audit_user_id = uid, audit_action = act, audit_resource_type = ''job'',
                 audit_resource_id = rid, audit_details = det\<rparr>]\<rparr>)
      else (Inl IntegrityError, s))"

subsection \<open>The job service\<close>

text \<open>
  \<^verbatim>\<open>JobService.create_job(playbook_id, server_id, user_id, extra_vars=None)\<close>. The two
  registry checks come first and raise before anything is added to the session. \<open>uuid\<close>
  is the token that \<^verbatim>\<open>uuid.uuid4()\<close> returned and \<open>now\<close> the clock reading of the
  \<^verbatim>\<open>created_at\<close> default. The first commit inserts the job: it fails on a token that
  another job has (the column is \<^verbatim>\<open>unique=True\<close>) and on an unknown user. The audit row
  is committed after it, on its own.
\<close>

definition create_job ::
  "store \<Rightarrow> int \<Rightarrow> int \<Rightarrow> int \<Rightarrow> (string \<times> string) list option \<Rightarrow> string \<Rightarrow> datetime
     \<Rightarrow> (error + job) \<times> store" where
  "create_job s pid sid uid ev uuid now =
     (case playbooks s pid of
        None \<Rightarrow> (Inl (PlaybookNotFoundOrInactive pid), s)
      | Some pb \<Rightarrow>
          if \<not> playbook_is_active pb then (Inl (PlaybookNotFoundOrInactive pid), s)
          else
            (case servers s sid of
               None \<Rightarrow> (Inl (ServerNotFoundOrInactive sid), s)
             | Some sv \<Rightarrow>
                 if \<not> server_is_active sv then (Inl (ServerNotFoundOrInactive sid), s)
                 else
                   let j = \<lparr>job_pk = next_pk (map job_pk (jobs s)), job_id = uuid,
                            playbook_id = pid, server_id = sid, user_id = uid,
                            status = Pending, celery_task_id = None,
                            extra_vars = (case ev of None \<Rightarrow> [] | Some kv \<Rightarrow> kv),
                            error_message = None, started_at = None,
                            completed_at = None, created_at = now\<rparr>
                   in if uuid \<in> set (map job_id (jobs s)) \<or> uid \<notin> set (users s)
                      then (Inl IntegrityError, s)
                      else
                        (case create_audit_log (s\<lparr>jobs := jobs s @ [j]\<rparr>) uid ''CREATE''
                                (job_pk j)
                                [(''job_id'', uuid), (''playbook'', playbook_name pb),
                                 (''server'', server_hostname sv)] of
                           (Inl e, s') \<Rightarrow> (Inl e, s')
                         | (Inr _, s') \<Rightarrow> (Inr j, s'))))"

text \<open>
  \<^verbatim>\<open>JobService.update_job_status(job_id, status, error_message=None, celery_task_id=None)\<close>,
  statement by statement: the status is assigned first, whatever the job's status was;
  the task id and the error message are assigned when they are true values; \<open>started_at\<close>
  is stamped on \<open>Running\<close> when it is unset; \<open>completed_at\<close> is stamped on each of the
  three final statuses.
\<close>

definition update_job_status ::
  "store \<Rightarrow> int \<Rightarrow> job_status \<Rightarrow> string option \<Rightarrow> string option \<Rightarrow> datetime
     \<Rightarrow> (error + job) \<times> store" where
  "update_job_status s i st msg task now =
     (case get_job s i of
        None \<Rightarrow> (Inl (JobNotFound i), s)
      | Some j \<Rightarrow>
          let j1 = j\<lparr>status := st\<rparr>;
              j2 = (if truthy_str task then j1\<lparr>celery_task_id := task\<rparr> else j1);
              j3 = (if truthy_str msg then j2\<lparr>error_message := msg\<rparr> else j2);
              j4 = (if st = Running \<and> started_at j3 = None
                    then j3\<lparr>started_at := Some now\<rparr> else j3);
              j5 = (if st \<in> {Success, Failed, Cancelled}
                    then j4\<lparr>completed_at := Some now\<rparr> else j4)
          in (Inr j5, put_job s j5))"

text \<open>
  \<^verbatim>\<open>JobService.add_job_log(job_id, line_number, content, log_level='INFO')\<close>: the row
  holds the line number the caller passed. The commit fails, and stores no row, for a
  line number that does not fit the \<^verbatim>\<open>db.Integer\<close> column \<^verbatim>\<open>line_number\<close>, and
  for a job that does not exist (\<^verbatim>\<open>job_logs.job_id\<close> is a foreign key to
  \<^verbatim>\<open>jobs.id\<close>).
\<close>

definition add_job_log ::
  "store \<Rightarrow> int \<Rightarrow> int \<Rightarrow> string \<Rightarrow> string option \<Rightarrow> datetime \<Rightarrow> (error + job_log) \<times> store" where
  "add_job_log s i num txt lvl now =
     (let log_entry = \<lparr>log_pk = next_pk (map log_pk (job_logs s)), log_job_id = i,
                        line_number = num, content = txt, log_level = lvl,
                        log_timestamp = now\<rparr>
      in if \<not> in_int_column num then (Inl DataError, s)
         else case get_job s i of
                None \<Rightarrow> (Inl IntegrityError, s)
              | Some _ \<Rightarrow> (Inr log_entry, s\<lparr>job_logs := job_logs s @ [log_entry]\<rparr>))"

text \<open>
  \<^verbatim>\<open>JobService.get_job_logs(job_id, start_line=None, limit=None)\<close>: the job's rows
  ordered by line number (rows with the same number stay in insertion order, as the
  index on \<^verbatim>\<open>(job_id, line_number)\<close> stores them); the lower bound is applied when
  \<open>start_line\<close> is a true value and the limit when \<open>limit\<close> is one.
\<close>

definition get_job_logs :: "store \<Rightarrow> int \<Rightarrow> int option \<Rightarrow> int option \<Rightarrow> error + job_log list" where
  "get_job_logs s i start_line limit =
     (let q = sort_key line_number (filter (\<lambda>l. log_job_id l = i) (job_logs s));
          q1 = (if truthy_int start_line
                then filter (\<lambda>l. the start_line \<le> line_number l) q else q)
      in if truthy_int limit
         then (if the limit < 0 then Inl ProgrammingError
               else Inr (take (nat (the limit)) q1))
         else Inr q1)"

text \<open>\<^verbatim>\<open>JobService.get_job_logs_count(job_id)\<close>.\<close>

definition get_job_logs_count :: "store \<Rightarrow> int \<Rightarrow> nat" where
  "get_job_logs_count s i = length (filter (\<lambda>l. log_job_id l = i) (job_logs s))"

text \<open>
  \<^verbatim>\<open>JobService.cancel_job(job_id, user_id)\<close>: the job is marked cancelled whatever its
  status was, and \<open>completed_at\<close> is stamped when it is unset. The job and the audit row
  are written by the commit inside \<^verbatim>\<open>_create_audit_log\<close>; when that commit fails the
  transaction is rolled back and the job is as before.
\<close>

definition cancel_job :: "store \<Rightarrow> int \<Rightarrow> int \<Rightarrow> datetime \<Rightarrow> (error + job) \<times> store" where
  "cancel_job s i uid now =
     (case get_job s i of
        None \<Rightarrow> (Inl (JobNotFound i), s)
      | Some j \<Rightarrow>
          let j1 = j\<lparr>status := Cancelled, error_message := Some ''Job cancelled by user''\<rparr>;
              j2 = (if completed_at j1 = None then j1\<lparr>completed_at := Some now\<rparr> else j1)
          in (case create_audit_log (put_job s j2) uid ''CANCEL'' (job_pk j2)
                     [(''job_id'', job_id j2), (''reason'', ''cancelled_by_user'')] of
                (Inl e, _) \<Rightarrow> (Inl e, s)
              | (Inr _, s') \<Rightarrow> (Inr j2, s')))"

text \<open>
  Python's floats are IEEE 754 doubles, and a double is modelled by the rational
  number it stands for. Every operation on doubles returns the double nearest to the
  exact result, a tie going to the even significand.

  \<open>round_half_even\<close> is the nearest integer, a tie to the even one.
\<close>

definition round_half_even :: "rat \<Rightarrow> int" where
  "round_half_even y =
     (let f = \<lfloor>y\<rfloor>; d = y - of_int f
      in if d < 1 / 2 then f else if 1 / 2 < d then f + 1 else if even f then f else f + 1)"

text \<open>
  The double nearest to a positive rational: the number is scaled by a power of two
  so that it lies between \<open>2 ^ 52\<close> and \<open>2 ^ 53\<close>, rounded to an integer (the 53-bit
  significand) and scaled back. \<open>floorlog 2 n\<close> is the number of binary digits of \<open>n\<close>,
  which gives the power of two: for \<open>1 \<le> x\<close> from the integer part of \<open>x\<close>, for
  \<open>x < 1\<close> from \<open>1 / x\<close>. Overflow and subnormal numbers are left out: the numbers
  of the service are percentages.
\<close>

definition to_double_pos :: "rat \<Rightarrow> rat" where
  "to_double_pos x =
     (if 1 \<le> x
      then (let k = floorlog 2 (nat \<lfloor>x\<rfloor>)
            in if k \<le> 53 then of_int (round_half_even (x * 2 ^ (53 - k))) / 2 ^ (53 - k)
               else of_int (round_half_even (x / 2 ^ (k - 53))) * 2 ^ (k - 53))
      else (let k = floorlog 2 (nat \<lceil>1 / x\<rceil> - 1)
            in of_int (round_half_even (x * 2 ^ (52 + k))) / 2 ^ (52 + k)))"

definition to_double :: "rat \<Rightarrow> rat" where
  "to_double x =
     (if x = 0 then 0 else if x < 0 then - to_double_pos (- x) else to_double_pos x)"

text \<open>
  Python's \<^verbatim>\<open>round(x, 2)\<close> on a double \<open>x\<close>: the decimal with two places nearest to
  the number that \<open>x\<close> stands for, a tie to the even one, and then the double nearest
  to that decimal.
\<close>

definition py_round2 :: "rat \<Rightarrow> rat" where
  "py_round2 x = to_double (of_int (round_half_even (x * 100)) / 100)"

text \<open>The dictionary that \<^verbatim>\<open>get_job_statistics\<close> returns.\<close>

record job_statistics =
  total :: nat
  pending :: nat
  running :: nat
  success :: nat
  failed :: nat
  cancelled :: nat
  success_rate :: rat

text \<open>
  \<^verbatim>\<open>JobService.get_job_statistics(user_id=None)\<close>: the rows are those of one user when
  \<open>user_id\<close> is a true value, and every row otherwise; one count per status. The rate
  is \<^verbatim>\<open>round(((total - failed) / total * 100), 2)\<close>, operation by operation: the
  division of the two integers gives a double, the product with 100 gives a double, and
  that one is rounded to two places.
\<close>

definition get_job_statistics :: "store \<Rightarrow> int option \<Rightarrow> job_statistics" where
  "get_job_statistics s uid =
     (let q = (if truthy_int uid then filter (\<lambda>j. user_id j = the uid) (jobs s) else jobs s);
          n = length q;
          count = (\<lambda>st. length (filter (\<lambda>j. status j = st) q));
          nfailed = count Failed
      in \<lparr>total = n, pending = count Pending, running = count Running,
          success = count Success, failed = nfailed, cancelled = count Cancelled,
          success_rate =
            (if 0 < n
             then py_round2 (to_double (to_double ((of_nat n - of_nat nfailed) / of_nat n) * 100))
             else 0)\<rparr>)"

subsection \<open>Sequences of service calls\<close>

text \<open>
  A call of one of the four services that write, with its arguments and the values it
  reads from its environment; \<open>step\<close> is the store a call leaves (the store it was given
  when the call raised before its commit), and \<open>run\<close> the store after a sequence of
  calls.
\<close>

datatype call =
    CreateJob int int int "(string \<times> string) list option" string datetime
  | UpdateJobStatus int job_status "string option" "string option" datetime
  | AddJobLog int int string "string option" datetime
  | CancelJob int int datetime

fun step :: "store \<Rightarrow> call \<Rightarrow> store" where
  "step s (CreateJob pid sid uid ev uuid now) = snd (create_job s pid sid uid ev uuid now)"
| "step s (UpdateJobStatus i st msg task now) = snd (update_job_status s i st msg task now)"
| "step s (AddJobLog i num txt lvl now) = snd (add_job_log s i num txt lvl now)"
| "step s (CancelJob i uid now) = snd (cancel_job s i uid now)"

fun run :: "store \<Rightarrow> call list \<Rightarrow> store" where
  "run s [] = s"
| "run s (c # cs) = run (step s c) cs"

subsection \<open>A job that is finished has its completion time\<close>

text \<open>The statuses that \<^verbatim>\<open>update_job_status\<close> lists as final are \<open>Success\<close>, \<open>Failed\<close>
  and \<open>Cancelled\<close>; a job row is well-timed when it has a \<open>completed_at\<close> in each of them.\<close>

definition completed_when_terminal :: "job \<Rightarrow> bool" where
  "completed_when_terminal j =
     (status j \<in> {Success, Failed, Cancelled} \<longrightarrow> completed_at j \<noteq> None)"

subsection \<open>Example rows\<close>

text \<open>
  A store with one user, one active playbook and one active server, holding the given
  jobs; the job that \<open>create_job\<close> makes in it first, and that job after it ran to
  success under the task \<open>w-1\<close>.
\<close>

definition ex_store :: "job list \<Rightarrow> store" where
  "ex_store js =
     \<lparr>users = [1],
      playbooks = [1 \<mapsto> \<lparr>playbook_name = ''deploy'', playbook_is_active = True\<rparr>],
      servers = [1 \<mapsto> \<lparr>server_hostname = ''web-1'', server_is_active = True\<rparr>],
      jobs = js, job_logs = [], audit_logs = []\<rparr>"

definition ex_pending :: job where
  "ex_pending =
     \<lparr>job_pk = 1, job_id = ''job-1'', playbook_id = 1, server_id = 1, user_id = 1,
      status = Pending, celery_task_id = None, extra_vars = [], error_message = None,
      started_at = None, completed_at = None, created_at = 1\<rparr>"

definition ex_success :: job where
  "ex_success =
     ex_pending\<lparr>status := Success, celery_task_id := Some ''w-1'', started_at := Some 3,
                completed_at := Some 5\<rparr>"

text \<open>The calls that lead from the empty example store to \<open>ex_success\<close>: the job is
  created, dispatched under \<open>w-1\<close>, started at 3 and finished at 5.\<close>

definition ex_calls :: "call list" where
  "ex_calls =
     [CreateJob 1 1 1 None ''job-1'' 1, UpdateJobStatus 1 Pending None (Some ''w-1'') 2,
      UpdateJobStatus 1 Running None None 3, UpdateJobStatus 1 Success None None 5]"

text \<open>Three log lines of job 1, numbered 0, 1 and 2 by their caller.\<close>

definition ex_lines :: "call list" where
  "ex_lines =
     [AddJobLog 1 0 ''line-0'' (Some ''INFO'') 2, AddJobLog 1 1 ''line-1'' (Some ''INFO'') 3,
      AddJobLog 1 2 ''line-2'' (Some ''INFO'') 4]"

text \<open>Job rows with the given tokens and statuses, keyed 1, 2, ... in this order; a
  finished one has a completion time.\<close>

definition ex_jobs :: "(string \<times> job_status) list \<Rightarrow> job list" where
  "ex_jobs xs =
     map (\<lambda>(k, u, st).
            ex_pending\<lparr>job_pk := int k + 1, job_id := u, status := st,
                       completed_at :=
                         (if st \<in> {Success, Failed, Cancelled} then Some 5 else None)\<rparr>)
       (enumerate 0 xs)"

text \<open>Ten jobs, seven of them succeeded, two failed and one cancelled; and three jobs,
  two of them succeeded and one failed.\<close>

definition ex_ten :: "job list" where
  "ex_ten =
     ex_jobs [(''a'', Success), (''b'', Success), (''c'', Failed), (''d'', Success),
              (''e'', Success), (''f'', Cancelled), (''g'', Success), (''h'', Failed),
              (''i'', Success), (''j'', Success)]"

definition ex_three :: "job list" where
  "ex_three = ex_jobs [(''a'', Success), (''b'', Failed), (''c'', Success)]"

section \<open>Properties\<close>

subsection \<open>Looking a job up after a write\<close>

lemma find_pk: "find (\<lambda>r. job_pk r = i) xs = Some j \<Longrightarrow> job_pk j = i"
  by (induction xs) (auto split: if_splits)

lemma get_job_pk: "get_job s i = Some j \<Longrightarrow> job_pk j = i"
  unfolding get_job_def by (rule find_pk)

lemma find_map_put:
  "job_pk j = k \<Longrightarrow>
   find (\<lambda>r. job_pk r = i) (map (\<lambda>r. if job_pk r = k then j else r) xs) =
     (if k = i then map_option (\<lambda>_. j) (find (\<lambda>r. job_pk r = i) xs)
      else find (\<lambda>r. job_pk r = i) xs)"
  by (induction xs) auto

lemma get_job_put_job:
  "get_job (put_job s j) i =
     (if job_pk j = i then map_option (\<lambda>_. j) (get_job s i) else get_job s i)"
  by (simp add: get_job_def put_job_def find_map_put)

lemma get_job_audit_logs_update: "get_job (s\<lparr>audit_logs := a\<rparr>) i = get_job s i"
  by (simp add: get_job_def)

lemma get_job_ex_success: "get_job (ex_store [ex_success]) 1 = Some ex_success"
  by (simp add: get_job_def ex_store_def ex_success_def ex_pending_def)

text \<open>The example job is what the service itself produces.\<close>

lemma ex_success_reached: "jobs (run (ex_store []) ex_calls) = [ex_success]"
  by (simp add: ex_calls_def create_job_def update_job_status_def create_audit_log_def
      get_job_def put_job_def ex_store_def ex_success_def ex_pending_def truthy_str_def
      next_pk_def Let_def)

lemma get_job_ex_calls: "get_job (run (ex_store []) ex_calls) 1 = Some ex_success"
  by (simp add: get_job_def ex_success_reached) (simp add: ex_success_def ex_pending_def)

subsection \<open>What one call does to the job it names\<close>

lemma update_job_status_Some:
  assumes "get_job s i = Some j"
  shows "\<exists>j'. update_job_status s i st msg task now = (Inr j', put_job s j') \<and>
           get_job (put_job s j') i = Some j' \<and> job_pk j' = i \<and>
           status j' = st \<and>
           celery_task_id j' = (if truthy_str task then task else celery_task_id j) \<and>
           error_message j' = (if truthy_str msg then msg else error_message j) \<and>
           started_at j' =
             (if st = Running \<and> started_at j = None then Some now else started_at j) \<and>
           completed_at j' =
             (if st \<in> {Success, Failed, Cancelled} then Some now else completed_at j)"
  using assms get_job_pk [OF assms]
  by (simp add: update_job_status_def Let_def get_job_put_job)

lemma update_job_status_None:
  "get_job s i = None \<Longrightarrow> update_job_status s i st msg task now = (Inl (JobNotFound i), s)"
  by (simp add: update_job_status_def)

lemma cancel_job_Some:
  assumes "get_job s i = Some j" and "uid \<in> set (users s)"
  shows "\<exists>j' s'. cancel_job s i uid now = (Inr j', s') \<and> jobs s' = jobs (put_job s j') \<and>
           get_job s' i = Some j' \<and> job_pk j' = i \<and> status j' = Cancelled \<and>
           error_message j' = Some ''Job cancelled by user'' \<and>
           started_at j' = started_at j \<and> celery_task_id j' = celery_task_id j \<and>
           completed_at j' = (case completed_at j of None \<Rightarrow> Some now | Some t \<Rightarrow> Some t)"
proof -
  define j2 where "j2 =
    (if completed_at j = None
     then j\<lparr>status := Cancelled, error_message := Some ''Job cancelled by user'',
            completed_at := Some now\<rparr>
     else j\<lparr>status := Cancelled, error_message := Some ''Job cancelled by user''\<rparr>)"
  have pk: "job_pk j2 = i"
    using get_job_pk [OF assms(1)] by (simp add: j2_def)
  have "cancel_job s i uid now =
          (Inr j2, (put_job s j2)\<lparr>audit_logs := audit_logs (put_job s j2) @
             [\<lparr>audit_user_id = uid, audit_action = ''CANCEL'', audit_resource_type = ''job'',
               audit_resource_id = job_pk j2,
               audit_details = [(''job_id'', job_id j2), (''reason'', ''cancelled_by_user'')]\<rparr>]\<rparr>)"
    using assms by (simp add: cancel_job_def create_audit_log_def Let_def j2_def put_job_def)
  moreover have "get_job (put_job s j2) i = Some j2"
    using assms(1) pk by (simp add: get_job_put_job)
  moreover have "status j2 = Cancelled" "error_message j2 = Some ''Job cancelled by user''"
    "started_at j2 = started_at j" "celery_task_id j2 = celery_task_id j"
    "completed_at j2 = (case completed_at j of None \<Rightarrow> Some now | Some t \<Rightarrow> Some t)"
    by (auto simp: j2_def)
  ultimately show ?thesis
    using pk by (simp add: get_job_audit_logs_update put_job_def)
qed

lemma cancel_job_None:
  "get_job s i = None \<Longrightarrow> cancel_job s i uid now = (Inl (JobNotFound i), s)"
  by (simp add: cancel_job_def)

lemma cancel_job_unknown_user:
  "uid \<notin> set (users s) \<Longrightarrow> get_job s i = Some j \<Longrightarrow>
   cancel_job s i uid now = (Inl IntegrityError, s)"
  by (simp add: cancel_job_def create_audit_log_def put_job_def Let_def)

subsection \<open>Status updates of a finished job\<close>

text \<open>
  Claim C1, as the code has it. \<open>update_job_status\<close> has no check of the job's current
  status: its one failure is the \<^verbatim>\<open>ValueError\<close> for a job id that is not stored. For
  a job that exists, in any status, the final ones included, the call succeeds and the
  stored job has the requested status. \<open>started_at\<close> is stamped when
  the new status is \<open>Running\<close> and it was unset, and is unchanged otherwise;
  \<open>completed_at\<close> is unchanged when the new status is \<open>Pending\<close> or \<open>Running\<close>, and
  once set it stays set.
\<close>

theorem update_job_status_overrides_terminal:
  "(get_job s i = None
      \<longrightarrow> update_job_status s i st msg task now = (Inl (JobNotFound i), s)) \<and>
   (\<forall>j. get_job s i = Some j
      \<longrightarrow> (\<exists>j'. update_job_status s i st msg task now = (Inr j', put_job s j') \<and>
            get_job (put_job s j') i = Some j' \<and> status j' = st \<and>
            started_at j' =
              (if st = Running \<and> started_at j = None then Some now else started_at j) \<and>
            (st \<in> {Pending, Running} \<longrightarrow> completed_at j' = completed_at j) \<and>
            (completed_at j \<noteq> None \<longrightarrow> completed_at j' \<noteq> None)))"
proof (intro conjI allI impI)
  assume "get_job s i = None"
  then show "update_job_status s i st msg task now = (Inl (JobNotFound i), s)"
    by (rule update_job_status_None)
next
  fix j assume "get_job s i = Some j"
  from update_job_status_Some [OF this, of st msg task now]
  show "\<exists>j'. update_job_status s i st msg task now = (Inr j', put_job s j') \<and>
            get_job (put_job s j') i = Some j' \<and> status j' = st \<and>
            started_at j' =
              (if st = Running \<and> started_at j = None then Some now else started_at j) \<and>
            (st \<in> {Pending, Running} \<longrightarrow> completed_at j' = completed_at j) \<and>
            (completed_at j \<noteq> None \<longrightarrow> completed_at j' \<noteq> None)"
    by auto
qed

text \<open>The theorem at a job that succeeded: a late \<open>Running\<close> is stored.\<close>

theorem update_job_status_overrides_terminal_witness:
  "get_job (ex_store [ex_success]) 1 = Some ex_success \<and> status ex_success = Success \<and>
   (\<exists>j'. update_job_status (ex_store [ex_success]) 1 Running None None 9
            = (Inr j', put_job (ex_store [ex_success]) j') \<and>
          get_job (put_job (ex_store [ex_success]) j') 1 = Some j' \<and> status j' = Running \<and>
          started_at j' = Some 3 \<and> completed_at j' = Some 5)"
proof -
  note g = get_job_ex_success
  from update_job_status_overrides_terminal
         [where s = "ex_store [ex_success]" and i = 1 and st = Running and msg = None
            and task = None and now = 9] g
  show ?thesis by (auto simp: ex_success_def ex_pending_def)
qed

text \<open>
  Against claim C1 as stated: the job succeeded, and \<open>update_job_status\<close> with
  \<open>Running\<close> returns the job, not an error, and the store holds it as \<open>Running\<close>.
\<close>

theorem update_job_status_terminal_counterexample:
  "get_job (ex_store [ex_success]) 1 = Some ex_success \<and> status ex_success = Success \<and>
   update_job_status (ex_store [ex_success]) 1 Running None None 9
     = (Inr (ex_success\<lparr>status := Running\<rparr>), ex_store [ex_success\<lparr>status := Running\<rparr>])"
  by (simp add: update_job_status_def get_job_def put_job_def ex_store_def ex_success_def
      ex_pending_def truthy_str_def Let_def)

subsection \<open>Cancelling\<close>

text \<open>
  What \<open>cancel_job\<close> does, by cases. It does not look at the job's status. It fails
  with the \<^verbatim>\<open>ValueError\<close> for a job id that is not stored, and in the commit of the
  audit row for a user that does not exist, the store unchanged in both cases. For a job
  that exists and a user that exists it returns the job, from each of the five statuses:
  the job it stores is \<open>Cancelled\<close>, its error message is the fixed text
  \<open>Job cancelled by user\<close>, and \<open>completed_at\<close> is the clock reading when it was unset
  and its old value otherwise.
\<close>

lemma cancel_job_outcomes:
  "(get_job s i = None \<longrightarrow> cancel_job s i uid now = (Inl (JobNotFound i), s)) \<and>
   (\<forall>j. get_job s i = Some j \<and> uid \<notin> set (users s)
      \<longrightarrow> cancel_job s i uid now = (Inl IntegrityError, s)) \<and>
   (\<forall>j. get_job s i = Some j \<and> uid \<in> set (users s)
      \<longrightarrow> (\<exists>j' s'. cancel_job s i uid now = (Inr j', s') \<and> get_job s' i = Some j' \<and>
            status j' = Cancelled \<and> error_message j' = Some ''Job cancelled by user'' \<and>
            completed_at j' =
              (case completed_at j of None \<Rightarrow> Some now | Some t \<Rightarrow> Some t)))"
proof (intro conjI allI impI)
  assume "get_job s i = None"
  then show "cancel_job s i uid now = (Inl (JobNotFound i), s)"
    by (rule cancel_job_None)
next
  fix j assume "get_job s i = Some j \<and> uid \<notin> set (users s)"
  then show "cancel_job s i uid now = (Inl IntegrityError, s)"
    by (simp add: cancel_job_unknown_user)
next
  fix j assume "get_job s i = Some j \<and> uid \<in> set (users s)"
  then have "get_job s i = Some j" and "uid \<in> set (users s)"
    by simp_all
  from cancel_job_Some [OF this, of now]
  show "\<exists>j' s'. cancel_job s i uid now = (Inr j', s') \<and> get_job s' i = Some j' \<and>
            status j' = Cancelled \<and> error_message j' = Some ''Job cancelled by user'' \<and>
            completed_at j' =
              (case completed_at j of None \<Rightarrow> Some now | Some t \<Rightarrow> Some t)"
    by blast
qed

text \<open>
  Claim C2, at the input where the code departs from it. The job API documents the
  operation as cancelling a running, pending or failed job. The example job succeeded at
  5; \<open>cancel_job\<close> at 9 does not fail: it returns the job as \<open>Cancelled\<close>, with the
  cancellation text as its error message.
\<close>

theorem cancel_job_cancels_succeeded_job:
  "get_job (ex_store [ex_success]) 1 = Some ex_success \<and> status ex_success = Success \<and>
   fst (cancel_job (ex_store [ex_success]) 1 1 9)
     = Inr (ex_success\<lparr>status := Cancelled, error_message := Some ''Job cancelled by user''\<rparr>) \<and>
   jobs (snd (cancel_job (ex_store [ex_success]) 1 1 9))
     = [ex_success\<lparr>status := Cancelled, error_message := Some ''Job cancelled by user''\<rparr>]"
  by (simp add: cancel_job_def create_audit_log_def get_job_def put_job_def ex_store_def
      ex_success_def ex_pending_def Let_def)

subsection \<open>Delivering a status twice\<close>

text \<open>
  Two deliveries of one status, with the same message and task id, at the clock
  readings \<open>now\<close> and \<open>now'\<close>: the status, \<open>started_at\<close>, the error message and the task
  id are those of one delivery, and so is \<open>completed_at\<close> when the status is \<open>Pending\<close>
  or \<open>Running\<close>. On a final status the second delivery stamps \<open>completed_at\<close> again.
\<close>

lemma update_job_status_twice:
  assumes "get_job s i = Some j"
  shows "\<exists>j1 j2. update_job_status s i st msg task now = (Inr j1, put_job s j1) \<and>
           update_job_status (put_job s j1) i st msg task now'
             = (Inr j2, put_job (put_job s j1) j2) \<and>
           status j2 = status j1 \<and> started_at j2 = started_at j1 \<and>
           error_message j2 = error_message j1 \<and> celery_task_id j2 = celery_task_id j1 \<and>
           completed_at j2 =
             (if st \<in> {Success, Failed, Cancelled} then Some now' else completed_at j1)"
proof -
  from update_job_status_Some [OF assms, of st msg task now] obtain j1 where
    j1: "update_job_status s i st msg task now = (Inr j1, put_job s j1)"
      "get_job (put_job s j1) i = Some j1" "status j1 = st"
      "celery_task_id j1 = (if truthy_str task then task else celery_task_id j)"
      "error_message j1 = (if truthy_str msg then msg else error_message j)"
      "started_at j1 =
         (if st = Running \<and> started_at j = None then Some now else started_at j)"
    by blast
  from update_job_status_Some [OF j1(2), of st msg task now'] obtain j2 where
    j2: "update_job_status (put_job s j1) i st msg task now'
           = (Inr j2, put_job (put_job s j1) j2)"
      "status j2 = st"
      "celery_task_id j2 = (if truthy_str task then task else celery_task_id j1)"
      "error_message j2 = (if truthy_str msg then msg else error_message j1)"
      "started_at j2 =
         (if st = Running \<and> started_at j1 = None then Some now' else started_at j1)"
      "completed_at j2 =
         (if st \<in> {Success, Failed, Cancelled} then Some now' else completed_at j1)"
    by blast
  from j1 j2 show ?thesis by auto
qed

text \<open>
  Claim C3, at the input where the code departs from it. A pending job is reported
  \<open>Success\<close> at 10, and the same report is delivered again at 20: after one delivery
  \<open>completed_at\<close> is 10, after two it is 20.
\<close>

theorem update_job_status_redelivery_restamps:
  "update_job_status (ex_store [ex_pending]) 1 Success None None 10
     = (Inr (ex_pending\<lparr>status := Success, completed_at := Some 10\<rparr>),
        ex_store [ex_pending\<lparr>status := Success, completed_at := Some 10\<rparr>]) \<and>
   update_job_status (ex_store [ex_pending\<lparr>status := Success, completed_at := Some 10\<rparr>])
       1 Success None None 20
     = (Inr (ex_pending\<lparr>status := Success, completed_at := Some 20\<rparr>),
        ex_store [ex_pending\<lparr>status := Success, completed_at := Some 20\<rparr>])"
  by (simp add: update_job_status_def get_job_def put_job_def ex_store_def ex_pending_def
      truthy_str_def Let_def)

text \<open>
  Redelivery of \<open>Pending\<close> or \<open>Running\<close> changes nothing at all: the second call
  returns the job of the first and leaves the store of the first.
\<close>

lemma put_job_twice: "put_job (put_job s j) j = put_job s j"
  by (simp add: put_job_def comp_def)

lemma update_job_status_redelivery_open:
  assumes "get_job s i = Some j" and "st \<in> {Pending, Running}"
  shows "\<exists>j1. update_job_status s i st msg task now = (Inr j1, put_job s j1) \<and>
           update_job_status (put_job s j1) i st msg task now' = (Inr j1, put_job s j1)"
proof -
  from update_job_status_Some [OF assms(1), of st msg task now] obtain j1 where
    j1: "update_job_status s i st msg task now = (Inr j1, put_job s j1)"
      "get_job (put_job s j1) i = Some j1" "status j1 = st"
      "celery_task_id j1 = (if truthy_str task then task else celery_task_id j)"
      "error_message j1 = (if truthy_str msg then msg else error_message j)"
      "started_at j1 =
         (if st = Running \<and> started_at j = None then Some now else started_at j)"
    by blast
  have a: "j1\<lparr>status := st\<rparr> = j1"
    using j1(3) by auto
  have b: "(if truthy_str task then j1\<lparr>celery_task_id := task\<rparr> else j1) = j1"
    using j1(4) by auto
  have c: "(if truthy_str msg then j1\<lparr>error_message := msg\<rparr> else j1) = j1"
    using j1(5) by auto
  have d: "(if st = Running \<and> started_at j1 = None
            then j1\<lparr>started_at := Some now'\<rparr> else j1) = j1"
    using j1(6) by auto
  have e: "(if st \<in> {Success, Failed, Cancelled}
            then j1\<lparr>completed_at := Some now'\<rparr> else j1) = j1"
    using assms(2) by auto
  have "update_job_status (put_job s j1) i st msg task now' = (Inr j1, put_job s j1)"
    unfolding update_job_status_def Let_def
    by (simp only: j1(2) option.case a b c d e put_job_twice)
  with j1(1) show ?thesis by blast
qed

subsection \<open>The completion time over the life of a job\<close>

lemma find_append_Some: "find P xs = Some x \<Longrightarrow> find P (xs @ ys) = Some x"
  by (induction xs) (auto split: if_splits)

lemma get_job_cong: "jobs s' = jobs s \<Longrightarrow> get_job s' i = get_job s i"
  by (simp add: get_job_def)

lemma get_job_in_jobs: "get_job s i = Some j \<Longrightarrow> j \<in> set (jobs s)"
  unfolding get_job_def by (induction "jobs s" arbitrary: s) (auto simp: find_Some_iff)

lemma create_job_jobs:
  "jobs (snd (create_job s pid sid uid ev uuid now)) = jobs s \<or>
   (\<exists>j. jobs (snd (create_job s pid sid uid ev uuid now)) = jobs s @ [j] \<and>
        status j = Pending \<and> job_id j = uuid \<and>
        fst (create_job s pid sid uid ev uuid now) = Inr j)"
  by (auto simp: create_job_def create_audit_log_def Let_def split: option.splits)

lemma add_job_log_jobs: "jobs (snd (add_job_log s i num line lvl now)) = jobs s"
  by (simp add: add_job_log_def Let_def split: option.splits)

text \<open>
  One call, whichever job it names, and the job stored under \<open>i\<close>: the job is still
  stored, a completion time it had is not removed, and it is the same one unless the
  call is a status update with a final status.
\<close>

lemma step_job:
  assumes "get_job s i = Some j"
  shows "\<exists>j'. get_job (step s c) i = Some j' \<and>
           (completed_at j \<noteq> None \<longrightarrow> completed_at j' \<noteq> None) \<and>
           ((\<forall>k st msg task now. c = UpdateJobStatus k st msg task now
                \<longrightarrow> st \<in> {Pending, Running})
              \<longrightarrow> completed_at j \<noteq> None \<longrightarrow> completed_at j' = completed_at j)"
proof (cases c)
  case (CreateJob pid sid uid ev uuid now)
  have "get_job (snd (create_job s pid sid uid ev uuid now)) i = Some j"
    using create_job_jobs [of s pid sid uid ev uuid now] assms
    by (auto simp: get_job_def find_append_Some)
  then show ?thesis using CreateJob by simp
next
  case (UpdateJobStatus k st msg task now)
  show ?thesis
  proof (cases "get_job s k")
    case None
    then show ?thesis using UpdateJobStatus assms by (simp add: update_job_status_None)
  next
    case (Some jk)
    from update_job_status_Some [OF Some, of st msg task now] obtain j' where
      j': "update_job_status s k st msg task now = (Inr j', put_job s j')" "job_pk j' = k"
        "completed_at j' =
           (if st \<in> {Success, Failed, Cancelled} then Some now else completed_at jk)"
      by blast
    show ?thesis
    proof (cases "k = i")
      case True
      then have "jk = j" using Some assms by simp
      then show ?thesis using UpdateJobStatus j' True assms
        by (auto simp: get_job_put_job)
    next
      case False
      then show ?thesis using UpdateJobStatus j' assms by (simp add: get_job_put_job)
    qed
  qed
next
  case (AddJobLog k num line lvl now)
  have "get_job (snd (add_job_log s k num line lvl now)) i = Some j"
    using assms get_job_cong [OF add_job_log_jobs] by simp
  then show ?thesis using AddJobLog by simp
next
  case (CancelJob k uid now)
  show ?thesis
  proof (cases "get_job s k")
    case None
    then show ?thesis using CancelJob assms by (simp add: cancel_job_None)
  next
    case (Some jk)
    show ?thesis
    proof (cases "uid \<in> set (users s)")
      case False
      then show ?thesis using CancelJob assms Some by (simp add: cancel_job_unknown_user)
    next
      case True
      from cancel_job_Some [OF Some True, of now] obtain j' s' where
        j': "cancel_job s k uid now = (Inr j', s')" "jobs s' = jobs (put_job s j')"
          "job_pk j' = k"
          "completed_at j' = (case completed_at jk of None \<Rightarrow> Some now | Some t \<Rightarrow> Some t)"
        by blast
      have g: "get_job s' i = get_job (put_job s j') i"
        using j'(2) by (rule get_job_cong)
      show ?thesis
      proof (cases "k = i")
        case True
        then have "jk = j" using Some assms by simp
        then show ?thesis using CancelJob j' True assms g
          by (auto simp: get_job_put_job split: option.splits)
      next
        case False
        then show ?thesis using CancelJob j' assms g by (simp add: get_job_put_job)
      qed
    qed
  qed
qed

text \<open>A call leaves the job table as it was, appends a pending job, or replaces the rows
  of one key by a well-timed row.\<close>

lemma step_jobs_shape:
  "jobs (step s c) = jobs s \<or>
   (\<exists>j. jobs (step s c) = jobs s @ [j] \<and> status j = Pending) \<or>
   (\<exists>j k. jobs (step s c) = map (\<lambda>r. if job_pk r = k then j else r) (jobs s) \<and>
          completed_when_terminal j)"
proof (cases c)
  case (CreateJob pid sid uid ev uuid now)
  then show ?thesis using create_job_jobs [of s pid sid uid ev uuid now] by auto
next
  case (UpdateJobStatus k st msg task now)
  show ?thesis
  proof (cases "get_job s k")
    case None
    then show ?thesis using UpdateJobStatus by (simp add: update_job_status_None)
  next
    case (Some jk)
    from update_job_status_Some [OF Some, of st msg task now] obtain j' where
      "update_job_status s k st msg task now = (Inr j', put_job s j')" "status j' = st"
      "completed_at j' =
         (if st \<in> {Success, Failed, Cancelled} then Some now else completed_at jk)"
      by blast
    then have "jobs (step s c) = map (\<lambda>r. if job_pk r = job_pk j' then j' else r) (jobs s)"
      and "completed_when_terminal j'"
      using UpdateJobStatus by (auto simp: put_job_def completed_when_terminal_def)
    then show ?thesis by blast
  qed
next
  case (AddJobLog k num line lvl now)
  then show ?thesis by (simp add: add_job_log_jobs)
next
  case (CancelJob k uid now)
  show ?thesis
  proof (cases "get_job s k")
    case None
    then show ?thesis using CancelJob by (simp add: cancel_job_None)
  next
    case (Some jk)
    show ?thesis
    proof (cases "uid \<in> set (users s)")
      case False
      then show ?thesis using CancelJob Some by (simp add: cancel_job_unknown_user)
    next
      case True
      from cancel_job_Some [OF Some True, of now] obtain j' s' where
        "cancel_job s k uid now = (Inr j', s')" "jobs s' = jobs (put_job s j')"
        "completed_at j' = (case completed_at jk of None \<Rightarrow> Some now | Some t \<Rightarrow> Some t)"
        by blast
      then have "jobs (step s c) = map (\<lambda>r. if job_pk r = job_pk j' then j' else r) (jobs s)"
        and "completed_when_terminal j'"
        using CancelJob
        by (auto simp: put_job_def completed_when_terminal_def split: option.splits)
      then show ?thesis by blast
    qed
  qed
qed

lemma step_invariant:
  assumes "list_all completed_when_terminal (jobs s)"
  shows "list_all completed_when_terminal (jobs (step s c))"
  using step_jobs_shape [of s c] assms
  by (auto simp: list_all_iff completed_when_terminal_def)

lemma run_invariant:
  "list_all completed_when_terminal (jobs s) \<Longrightarrow>
   list_all completed_when_terminal (jobs (run s cs))"
  by (induction cs arbitrary: s) (simp_all add: step_invariant)

text \<open>
  Claim C4, as the code has it. Take any store reached from one without jobs by calls of
  the service, and any job \<open>j\<close> in it. If the status of \<open>j\<close> is final, \<open>completed_at\<close>
  is set. (The converse fails: a status update may move a finished job back to
  \<open>Pending\<close> or \<open>Running\<close>, and the completion time stays.) Once \<open>completed_at\<close> is set,
  no later call unsets it; a later \<open>cancel_job\<close>, and a later \<open>update_job_status\<close> with
  \<open>Pending\<close> or \<open>Running\<close>, leave its value as it is.
\<close>

theorem completed_at_of_reached_job:
  assumes "jobs s0 = []" and "get_job (run s0 cs) i = Some j"
  shows "(status j \<in> {Success, Failed, Cancelled} \<longrightarrow> completed_at j \<noteq> None) \<and>
         (\<forall>t. completed_at j = Some t \<longrightarrow>
            (\<forall>c. \<exists>j' t'. get_job (step (run s0 cs) c) i = Some j' \<and>
                          completed_at j' = Some t') \<and>
            (\<forall>k uid now. \<exists>j'. get_job (step (run s0 cs) (CancelJob k uid now)) i = Some j' \<and>
                                completed_at j' = Some t) \<and>
            (\<forall>k st msg task now. st \<in> {Pending, Running} \<longrightarrow>
               (\<exists>j'. get_job (step (run s0 cs) (UpdateJobStatus k st msg task now)) i
                        = Some j' \<and>
                     completed_at j' = Some t)))"
proof -
  have "list_all completed_when_terminal (jobs (run s0 cs))"
    using assms(1) by (intro run_invariant) simp
  then have inv: "completed_when_terminal j"
    using get_job_in_jobs [OF assms(2)] by (simp add: list_all_iff)
  have frame: "\<exists>j'. get_job (step (run s0 cs) c) i = Some j' \<and>
           (completed_at j \<noteq> None \<longrightarrow> completed_at j' \<noteq> None) \<and>
           ((\<forall>k st msg task now. c = UpdateJobStatus k st msg task now
                \<longrightarrow> st \<in> {Pending, Running})
              \<longrightarrow> completed_at j \<noteq> None \<longrightarrow> completed_at j' = completed_at j)" for c
    using step_job [OF assms(2), of c] by blast
  show ?thesis
  proof (intro conjI allI impI)
    show "completed_at j \<noteq> None" if "status j \<in> {Success, Failed, Cancelled}"
      using inv that unfolding completed_when_terminal_def by blast
  next
    fix t c assume "completed_at j = Some t"
    then show "\<exists>j' t'. get_job (step (run s0 cs) c) i = Some j' \<and> completed_at j' = Some t'"
      using frame [of c] by auto
  next
    fix t k uid now assume "completed_at j = Some t"
    then show "\<exists>j'. get_job (step (run s0 cs) (CancelJob k uid now)) i = Some j' \<and>
                    completed_at j' = Some t"
      using frame [of "CancelJob k uid now"] by auto
  next
    fix t k st msg task now
    assume "completed_at j = Some t" and "st \<in> {Pending, Running}"
    then show "\<exists>j'. get_job (step (run s0 cs) (UpdateJobStatus k st msg task now)) i
                      = Some j' \<and>
                    completed_at j' = Some t"
      using frame [of "UpdateJobStatus k st msg task now"] by auto
  qed
qed

text \<open>The theorem at the example job, which finished at 5: it is then cancelled at 9, or
  reported \<open>Running\<close> again at 9, and its completion time is still 5.\<close>

theorem completed_at_of_reached_job_witness:
  "jobs (ex_store []) = [] \<and> get_job (run (ex_store []) ex_calls) 1 = Some ex_success \<and>
   status ex_success = Success \<and> completed_at ex_success = Some 5 \<and>
   (\<exists>j'. get_job (step (run (ex_store []) ex_calls) (CancelJob 1 1 9)) 1 = Some j' \<and>
         completed_at j' = Some 5) \<and>
   (\<exists>j'. get_job (step (run (ex_store []) ex_calls) (UpdateJobStatus 1 Running None None 9)) 1
            = Some j' \<and>
         completed_at j' = Some 5)"
proof -
  have e: "jobs (ex_store []) = []"
    by (simp add: ex_store_def)
  note g = get_job_ex_calls
  have c: "completed_at ex_success = Some 5" and st: "status ex_success = Success"
    by (simp_all add: ex_success_def)
  from completed_at_of_reached_job [OF e g] c
  have "(\<exists>j'. get_job (step (run (ex_store []) ex_calls) (CancelJob 1 1 9)) 1 = Some j' \<and>
              completed_at j' = Some 5)"
    and "(\<exists>j'. get_job (step (run (ex_store []) ex_calls)
                   (UpdateJobStatus 1 Running None None 9)) 1 = Some j' \<and>
              completed_at j' = Some 5)"
    by blast+
  with e g c st show ?thesis by blast
qed

text \<open>
  Against claim C4 as stated: the example job finished at 5 and is then reported
  \<open>Pending\<close> at 9. The store holds it as \<open>Pending\<close>, which is not final, with the
  completion time 5.
\<close>

theorem completed_at_back_to_pending_counterexample:
  "jobs (run (ex_store []) (ex_calls @ [UpdateJobStatus 1 Pending None None 9]))
     = [ex_success\<lparr>status := Pending\<rparr>] \<and>
   status (ex_success\<lparr>status := Pending\<rparr>) = Pending \<and>
   completed_at (ex_success\<lparr>status := Pending\<rparr>) = Some 5"
  by (simp add: ex_calls_def create_job_def update_job_status_def create_audit_log_def
      get_job_def put_job_def ex_store_def ex_success_def ex_pending_def truthy_str_def
      next_pk_def Let_def)

subsection \<open>The task id of the worker\<close>

text \<open>
  Claim C5, as the code has it. The task id is recorded by \<open>update_job_status\<close> (the
  job API calls it with \<open>Pending\<close> and the id). A non-empty id is stored whatever id
  the job had: there is no conflict error, a different id replaces the old one. A second
  call with the same id stores the same id again, and with \<open>Pending\<close> or \<open>Running\<close> it
  changes neither the job nor the store.
\<close>

theorem update_job_status_replaces_task_id:
  assumes "get_job s i = Some j" and "h \<noteq> []"
  shows "\<exists>j1. update_job_status s i st msg (Some h) now = (Inr j1, put_job s j1) \<and>
           get_job (put_job s j1) i = Some j1 \<and> celery_task_id j1 = Some h \<and>
           (\<exists>j2. update_job_status (put_job s j1) i st msg (Some h) now'
                    = (Inr j2, put_job (put_job s j1) j2) \<and>
                  get_job (put_job (put_job s j1) j2) i = Some j2 \<and>
                  celery_task_id j2 = Some h \<and>
                  (st \<in> {Pending, Running}
                     \<longrightarrow> j2 = j1 \<and> put_job (put_job s j1) j2 = put_job s j1))"
proof -
  have t: "truthy_str (Some h)" using assms(2) by (simp add: truthy_str_def)
  from update_job_status_Some [OF assms(1), of st msg "Some h" now] t obtain j1 where
    j1: "update_job_status s i st msg (Some h) now = (Inr j1, put_job s j1)"
      "get_job (put_job s j1) i = Some j1" "celery_task_id j1 = Some h"
    by auto
  from update_job_status_Some [OF j1(2), of st msg "Some h" now'] t obtain j2 where
    j2: "update_job_status (put_job s j1) i st msg (Some h) now'
           = (Inr j2, put_job (put_job s j1) j2)"
      "get_job (put_job (put_job s j1) j2) i = Some j2" "celery_task_id j2 = Some h"
    by auto
  have "j2 = j1 \<and> put_job (put_job s j1) j2 = put_job s j1" if "st \<in> {Pending, Running}"
    using update_job_status_redelivery_open [OF assms(1) that, of msg "Some h" now now']
      j1(1) j2(1)
    by auto
  with j1 j2 show ?thesis by blast
qed

text \<open>The theorem at the example job, dispatched under \<open>w-1\<close>: the id \<open>w-2\<close> is stored.\<close>

theorem update_job_status_replaces_task_id_witness:
  "get_job (ex_store [ex_success]) 1 = Some ex_success \<and> ''w-2'' \<noteq> [] \<and>
   celery_task_id ex_success = Some ''w-1'' \<and>
   (\<exists>j1. update_job_status (ex_store [ex_success]) 1 Pending None (Some ''w-2'') 9
            = (Inr j1, put_job (ex_store [ex_success]) j1) \<and>
          celery_task_id j1 = Some ''w-2'')"
proof -
  note g = get_job_ex_success
  have h: "''w-2'' \<noteq> []" by simp
  have c: "celery_task_id ex_success = Some ''w-1''" by (simp add: ex_success_def)
  from update_job_status_replaces_task_id [OF g h, of Pending None 9 9] g c
  show ?thesis by auto
qed

text \<open>
  Against claim C5 as stated: the job has the task id \<open>w-1\<close>, and the call with \<open>w-2\<close>
  returns the job, not an error, and the store holds \<open>w-2\<close>.
\<close>

theorem update_job_status_task_id_counterexample:
  "get_job (ex_store [ex_success]) 1 = Some ex_success \<and>
   celery_task_id ex_success = Some ''w-1'' \<and>
   update_job_status (ex_store [ex_success]) 1 Pending None (Some ''w-2'') 9
     = (Inr (ex_success\<lparr>status := Pending, celery_task_id := Some ''w-2''\<rparr>),
        ex_store [ex_success\<lparr>status := Pending, celery_task_id := Some ''w-2''\<rparr>])"
  by (simp add: update_job_status_def get_job_def put_job_def ex_store_def ex_success_def
      ex_pending_def truthy_str_def Let_def)

subsection \<open>Log lines\<close>

lemma get_job_ex_pending: "get_job (ex_store [ex_pending]) 1 = Some ex_pending"
  by (simp add: get_job_def ex_store_def ex_pending_def)

lemma add_job_log_Some:
  assumes "get_job s i = Some j" and "in_int_column num"
  shows "\<exists>e. add_job_log s i num line lvl now
                = (Inr e, s\<lparr>job_logs := job_logs s @ [e]\<rparr>) \<and>
           log_job_id e = i \<and> line_number e = num \<and> content e = line \<and> log_level e = lvl"
  using assms by (simp add: add_job_log_def Let_def)

lemma add_job_log_None:
  "get_job s i = None \<Longrightarrow> in_int_column num \<Longrightarrow>
   add_job_log s i num line lvl now = (Inl IntegrityError, s)"
  by (simp add: add_job_log_def Let_def)

text \<open>A line number outside the column is refused, and no row is stored.\<close>

lemma add_job_log_out_of_range:
  "\<not> in_int_column num \<Longrightarrow> add_job_log s i num line lvl now = (Inl DataError, s)"
  by (simp add: add_job_log_def Let_def)

lemma run_add_job_logs:
  assumes "get_job s i = Some j" and "list_all (\<lambda>x. in_int_column (fst x)) xs"
  shows "map line_number (job_logs (run s (map (\<lambda>(n, l, lv, t). AddJobLog i n l lv t) xs)))
           = map line_number (job_logs s) @ map fst xs"
  using assms
proof (induction xs arbitrary: s)
  case Nil
  then show ?case by simp
next
  case (Cons x xs)
  obtain n l lv t where x: "x = (n, l, lv, t)" by (cases x) auto
  have r: "in_int_column n" and rs: "list_all (\<lambda>x. in_int_column (fst x)) xs"
    using Cons.prems(2) x by simp_all
  from add_job_log_Some [OF Cons.prems(1) r, of l lv t] obtain e where
    e: "add_job_log s i n l lv t = (Inr e, s\<lparr>job_logs := job_logs s @ [e]\<rparr>)"
      "line_number e = n"
    by blast
  have g: "get_job (s\<lparr>job_logs := job_logs s @ [e]\<rparr>) i = Some j"
    using Cons.prems(1) by (simp add: get_job_def)
  show ?case using Cons.IH [OF g rs] e x by simp
qed

text \<open>
  Claim C6, as the code has it. \<open>add_job_log\<close> assigns no line number: its second
  argument is the number. For a job that exists and a number that fits the integer
  column, the row it appends holds exactly that number (and the job id and the text it
  was given); the rows stored before are as they were. After any sequence of appends
  to one job, with numbers that fit the column, the stored numbers are the callers'
  numbers in the order of the calls, so they are unique and increasing when, and only
  when, the callers made them so.
\<close>

theorem add_job_log_keeps_callers_number:
  assumes "get_job s i = Some j" and "in_int_column num"
    and "list_all (\<lambda>x. in_int_column (fst x)) xs"
  shows "(\<exists>e. add_job_log s i num line lvl now
                 = (Inr e, s\<lparr>job_logs := job_logs s @ [e]\<rparr>) \<and>
              log_job_id e = i \<and> line_number e = num \<and> content e = line) \<and>
         map line_number (job_logs (run s (map (\<lambda>(n, l, lv, t). AddJobLog i n l lv t) xs)))
           = map line_number (job_logs s) @ map fst xs"
  using add_job_log_Some [OF assms(1,2), of line lvl now] run_add_job_logs [OF assms(1,3)]
  by blast

text \<open>The theorem at the pending example job: a first line stored under the number 7,
  and two lines stored under 5 and then 3.\<close>

theorem add_job_log_keeps_callers_number_witness:
  "get_job (ex_store [ex_pending]) 1 = Some ex_pending \<and> in_int_column 7 \<and>
   list_all (\<lambda>x. in_int_column (fst x)) [(5, ''a'', None, 2 :: nat), (3, ''b'', None, 3)] \<and>
   (\<exists>e. add_job_log (ex_store [ex_pending]) 1 7 ''line-0'' (Some ''INFO'') 2
           = (Inr e, (ex_store [ex_pending])\<lparr>job_logs := job_logs (ex_store [ex_pending]) @ [e]\<rparr>) \<and>
         line_number e = 7) \<and>
   map line_number (job_logs (run (ex_store [ex_pending])
       [AddJobLog 1 5 ''a'' None 2, AddJobLog 1 3 ''b'' None 3])) = [5, 3]"
proof -
  note g = get_job_ex_pending
  have r: "in_int_column 7"
    by (simp add: in_int_column_def)
  have rs: "list_all (\<lambda>x. in_int_column (fst x))
              [(5, ''a'', None :: string option, 2 :: nat), (3, ''b'', None, 3)]"
    by (simp add: in_int_column_def)
  have l: "job_logs (ex_store [ex_pending]) = []" by (simp add: ex_store_def)
  from add_job_log_keeps_callers_number [OF g r rs, of "''line-0''" "Some ''INFO''" 2] g l r rs
  show ?thesis by auto
qed

text \<open>
  Against claim C6 as stated: two appends to job 1, both with the number 0, are both
  stored under 0.
\<close>

theorem add_job_log_duplicate_counterexample:
  "map line_number (job_logs (run (ex_store [ex_pending])
       [AddJobLog 1 0 ''line-0'' None 2, AddJobLog 1 0 ''line-1'' None 3])) = [0, 0]"
  by (simp add: add_job_log_def in_int_column_def get_job_def ex_store_def ex_pending_def
      next_pk_def Let_def)

subsection \<open>Creating a job\<close>

lemma fold_max_init: "(a::int) \<le> fold max ks a"
proof (induction ks arbitrary: a)
  case Nil
  show ?case by simp
next
  case (Cons k ks)
  have "a \<le> max k a" by simp
  also have "max k a \<le> fold max ks (max k a)" by (rule Cons.IH)
  finally show ?case by simp
qed

lemma fold_max_ge: "x \<in> set ks \<Longrightarrow> x \<le> fold max ks (a::int)"
proof (induction ks arbitrary: a)
  case Nil
  then show ?case by simp
next
  case (Cons k ks)
  show ?case
  proof (cases "x = k")
    case True
    have "x \<le> max k a" using True by simp
    also have "max k a \<le> fold max ks (max k a)" by (rule fold_max_init)
    finally show ?thesis by simp
  next
    case False
    then have "x \<in> set ks" using Cons.prems by simp
    then show ?thesis using Cons.IH by simp
  qed
qed

lemma next_pk_fresh: "next_pk ks \<notin> set ks"
  using fold_max_ge [of "next_pk ks" ks 0] by (auto simp: next_pk_def)

lemma find_append_None: "find P xs = None \<Longrightarrow> find P (xs @ ys) = find P ys"
  by (induction xs) (auto split: if_splits)

lemma get_job_new:
  assumes "job_pk j = next_pk (map job_pk (jobs s))" and "jobs s' = jobs s @ [j]"
  shows "get_job s' (job_pk j) = Some j"
proof -
  have "find (\<lambda>r. job_pk r = job_pk j) (jobs s) = None"
    using next_pk_fresh [of "map job_pk (jobs s)"] assms(1) by (force simp: find_None_iff)
  then show ?thesis using assms(2) by (simp add: get_job_def find_append_None)
qed

lemma create_job_Inr:
  assumes "create_job s pid sid uid ev uuid now = (Inr j, s')"
  shows "jobs s' = jobs s @ [j] \<and> job_pk j = next_pk (map job_pk (jobs s)) \<and>
         status j = Pending \<and> job_id j = uuid \<and> uuid \<notin> set (map job_id (jobs s)) \<and>
         playbook_id j = pid \<and> server_id j = sid \<and> user_id j = uid \<and>
         completed_at j = None \<and> started_at j = None \<and>
         (\<exists>pb sv. playbooks s pid = Some pb \<and> playbook_is_active pb \<and>
                  servers s sid = Some sv \<and> server_is_active sv)"
  using assms
  by (auto simp: create_job_def create_audit_log_def Let_def split: option.splits if_splits)

text \<open>
  Claim C7. When the playbook is missing or inactive, \<open>create_job\<close> raises the
  \<^verbatim>\<open>ValueError\<close> of the playbook and the store is unchanged; when the server is missing
  or inactive, it raises the \<^verbatim>\<open>ValueError\<close> of the playbook or of the server and the
  store is unchanged. (These \<^verbatim>\<open>ValueError\<close>s are what the specification calls
  \<open>ReferenceError\<close>.) When it returns a job, the job table is the old one with that job
  appended, the job can be read back under its key, its status is \<open>Pending\<close>, and its
  token is the fresh UUID, which no job stored before has.
\<close>

theorem create_job_checks_references:
  "((case playbooks s pid of None \<Rightarrow> True | Some pb \<Rightarrow> \<not> playbook_is_active pb)
      \<longrightarrow> create_job s pid sid uid ev uuid now = (Inl (PlaybookNotFoundOrInactive pid), s)) \<and>
   ((case servers s sid of None \<Rightarrow> True | Some sv \<Rightarrow> \<not> server_is_active sv)
      \<longrightarrow> create_job s pid sid uid ev uuid now = (Inl (PlaybookNotFoundOrInactive pid), s) \<or>
          create_job s pid sid uid ev uuid now = (Inl (ServerNotFoundOrInactive sid), s)) \<and>
   (\<forall>j s'. create_job s pid sid uid ev uuid now = (Inr j, s')
      \<longrightarrow> jobs s' = jobs s @ [j] \<and> get_job s' (job_pk j) = Some j \<and> status j = Pending \<and>
          job_id j = uuid \<and> (\<forall>r \<in> set (jobs s). job_id r \<noteq> uuid))"
proof (intro conjI allI impI)
  assume "case playbooks s pid of None \<Rightarrow> True | Some pb \<Rightarrow> \<not> playbook_is_active pb"
  then show "create_job s pid sid uid ev uuid now = (Inl (PlaybookNotFoundOrInactive pid), s)"
    by (cases "playbooks s pid") (simp_all add: create_job_def)
next
  assume "case servers s sid of None \<Rightarrow> True | Some sv \<Rightarrow> \<not> server_is_active sv"
  then show "create_job s pid sid uid ev uuid now = (Inl (PlaybookNotFoundOrInactive pid), s) \<or>
          create_job s pid sid uid ev uuid now = (Inl (ServerNotFoundOrInactive sid), s)"
    by (cases "playbooks s pid"; cases "servers s sid") (simp_all add: create_job_def)
next
  fix j s' assume c: "create_job s pid sid uid ev uuid now = (Inr j, s')"
  note r = create_job_Inr [OF c]
  from r show "jobs s' = jobs s @ [j]" "status j = Pending" "job_id j = uuid" by simp_all
  from r show "get_job s' (job_pk j) = Some j" by (intro get_job_new) simp_all
  from r have "uuid \<notin> job_id ` set (jobs s)" by simp
  then show "\<forall>r \<in> set (jobs s). job_id r \<noteq> uuid" by force
qed

text \<open>
  The theorem at the example store: with the playbook switched off the call fails and the
  store is the same; with the playbook on it returns the pending example job, which
  is then the one job of the store.
\<close>

theorem create_job_checks_references_witness:
  "create_job ((ex_store [])\<lparr>playbooks :=
        [1 \<mapsto> \<lparr>playbook_name = ''deploy'', playbook_is_active = False\<rparr>]\<rparr>)
      1 1 1 None ''job-1'' 1
     = (Inl (PlaybookNotFoundOrInactive 1),
        (ex_store [])\<lparr>playbooks :=
          [1 \<mapsto> \<lparr>playbook_name = ''deploy'', playbook_is_active = False\<rparr>]\<rparr>) \<and>
   fst (create_job (ex_store []) 1 1 1 None ''job-1'' 1) = Inr ex_pending \<and>
   jobs (snd (create_job (ex_store []) 1 1 1 None ''job-1'' 1)) = [ex_pending] \<and>
   get_job (snd (create_job (ex_store []) 1 1 1 None ''job-1'' 1)) 1 = Some ex_pending \<and>
   status ex_pending = Pending"
proof -
  define off where "off = (ex_store [])\<lparr>playbooks :=
        [1 \<mapsto> \<lparr>playbook_name = ''deploy'', playbook_is_active = False\<rparr>]\<rparr>"
  have a: "case playbooks off 1 of None \<Rightarrow> True | Some pb \<Rightarrow> \<not> playbook_is_active pb"
    by (simp add: off_def)
  have 1: "create_job off 1 1 1 None ''job-1'' 1 = (Inl (PlaybookNotFoundOrInactive 1), off)"
    using create_job_checks_references [of off 1 1 1 None "''job-1''" 1] a by blast
  obtain r s' where c: "create_job (ex_store []) 1 1 1 None ''job-1'' 1 = (r, s')"
    by (cases "create_job (ex_store []) 1 1 1 None ''job-1'' 1")
  have r: "r = Inr ex_pending"
    using c by (simp add: create_job_def create_audit_log_def ex_store_def ex_pending_def
        next_pk_def Let_def)
  have pk: "job_pk ex_pending = 1" and st: "status ex_pending = Pending"
    by (simp_all add: ex_pending_def)
  from create_job_checks_references [of "ex_store []" 1 1 1 None "''job-1''" 1] c r pk
  have "jobs s' = jobs (ex_store []) @ [ex_pending]" "get_job s' 1 = Some ex_pending"
    by auto
  then show ?thesis using 1 c r st by (simp add: off_def ex_store_def)
qed

subsection \<open>Statistics\<close>

lemma status_partition:
  "length q =
     length (filter (\<lambda>j. status j = Pending) q) + length (filter (\<lambda>j. status j = Running) q)
     + length (filter (\<lambda>j. status j = Success) q) + length (filter (\<lambda>j. status j = Failed) q)
     + length (filter (\<lambda>j. status j = Cancelled) q)"
proof (induction q)
  case Nil
  show ?case by simp
next
  case (Cons j q)
  then show ?case by (cases "status j") simp_all
qed

text \<open>
  The error of one rounding to a double: at most the number itself over \<open>2 ^ 53\<close>.
\<close>

lemma round_half_even_close: "\<bar>of_int (round_half_even y) - y\<bar> \<le> 1 / 2"
proof -
  have "of_int \<lfloor>y\<rfloor> \<le> y" and "y < of_int \<lfloor>y\<rfloor> + 1"
    by linarith+
  then show ?thesis
    unfolding round_half_even_def Let_def by (auto simp: abs_le_iff)
qed

lemma round_half_even_nonneg: "0 \<le> y \<Longrightarrow> 0 \<le> round_half_even y"
  unfolding round_half_even_def Let_def by (auto simp: add_nonneg_nonneg)

lemma scaled_close:
  fixes x c :: rat
  assumes "0 < c" and "1 / (2 * c) \<le> b"
  shows "\<bar>of_int (round_half_even (x * c)) / c - x\<bar> \<le> b"
proof -
  have "\<bar>of_int (round_half_even (x * c)) / c - x\<bar>
          = \<bar>of_int (round_half_even (x * c)) - x * c\<bar> / c"
    using assms(1) by (simp add: field_simps abs_if)
  also have "\<dots> \<le> (1 / 2) / c"
    using assms(1) by (intro divide_right_mono round_half_even_close) simp
  also have "\<dots> = 1 / (2 * c)" by simp
  finally show ?thesis using assms(2) by simp
qed

lemma to_double_pos_close:
  assumes "0 < x"
  shows "\<bar>to_double_pos x - x\<bar> \<le> x / 2 ^ 53"
proof (cases "1 \<le> x")
  case True
  define n where "n = nat \<lfloor>x\<rfloor>"
  define k where "k = floorlog 2 n"
  have n0: "0 < n" using True by (simp add: n_def)
  from floorlog_bounds [of n 2] n0 have b: "2 ^ (k - 1) \<le> n" "n < 2 ^ k"
    by (simp_all add: k_def)
  have k0: "0 < k" using n0 by (simp add: k_def floorlog_def)
  have "(of_nat n :: rat) \<le> x" using True by (simp add: n_def)
  moreover have "(2 :: rat) ^ (k - 1) \<le> of_nat n"
    using b(1) by (metis of_nat_le_iff of_nat_numeral of_nat_power)
  ultimately have lo: "(2 :: rat) ^ (k - 1) \<le> x" by linarith
  show ?thesis
  proof (cases "k \<le> 53")
    case le: True
    have "(2 :: rat) ^ 53 = 2 ^ (53 - k) * 2 ^ (k - 1) * 2"
      using le k0 by (simp add: power_add [symmetric] flip: power_Suc2)
    then have "1 / (2 * (2 :: rat) ^ (53 - k)) = 2 ^ (k - 1) / 2 ^ 53"
      by (simp add: field_simps)
    also have "\<dots> \<le> x / 2 ^ 53" using lo by (simp add: divide_right_mono)
    finally have "\<bar>of_int (round_half_even (x * 2 ^ (53 - k))) / 2 ^ (53 - k) - x\<bar> \<le> x / 2 ^ 53"
      by (intro scaled_close) simp_all
    then show ?thesis
      using True le by (simp add: to_double_pos_def Let_def n_def [symmetric] k_def [symmetric])
  next
    case gt: False
    define c :: rat where "c = 2 ^ (k - 53)"
    have c0: "0 < c" by (simp add: c_def)
    have e: "k - 1 = (k - 53) + 52" using gt by linarith
    have "(2 :: rat) ^ (k - 1) = c * 2 ^ 52"
      by (simp only: e power_add c_def)
    then have "c / 2 = 2 ^ (k - 1) / 2 ^ 53" by simp
    also have "\<dots> \<le> x / 2 ^ 53" using lo by (simp add: divide_right_mono)
    finally have cb: "c / 2 \<le> x / 2 ^ 53" .
    have "\<bar>of_int (round_half_even (x / c)) * c - x\<bar>
            = \<bar>of_int (round_half_even (x / c)) - x / c\<bar> * c"
      using c0 by (simp add: field_simps abs_if)
    also have "\<dots> \<le> (1 / 2) * c"
      using c0 by (intro mult_right_mono round_half_even_close) simp
    finally have "\<bar>of_int (round_half_even (x / c)) * c - x\<bar> \<le> x / 2 ^ 53"
      using cb by simp
    then show ?thesis
      using True gt
      by (simp add: to_double_pos_def Let_def n_def [symmetric] k_def [symmetric] c_def)
  qed
next
  case False
  define z where "z = \<lceil>1 / x\<rceil>"
  define m where "m = nat z - 1"
  define k where "k = floorlog 2 m"
  have "1 < 1 / x" using False assms by simp
  then have z2: "2 \<le> z" unfolding z_def by linarith
  then have m0: "0 < m" by (simp add: m_def)
  from floorlog_bounds [of m 2] m0 have b: "m < 2 ^ k"
    by (simp_all add: k_def)
  have "z = int m + 1" using z2 by (simp add: m_def)
  moreover have "int m + 1 \<le> 2 ^ k"
  proof -
    have "Suc m \<le> 2 ^ k" using b by simp
    then have "int (Suc m) \<le> int (2 ^ k)" by (simp only: of_nat_le_iff)
    then show ?thesis by simp
  qed
  ultimately have "z \<le> 2 ^ k" by simp
  then have "(of_int z :: rat) \<le> 2 ^ k"
    by (metis of_int_le_iff of_int_numeral of_int_power)
  moreover have "1 / x \<le> of_int z" by (simp add: z_def)
  ultimately have "1 / x \<le> 2 ^ k" by linarith
  then have lo: "1 / 2 ^ k \<le> x"
    using assms by (simp add: field_simps)
  have "1 / (2 * (2 :: rat) ^ (52 + k)) = (1 / 2 ^ k) / 2 ^ 53"
    by (simp add: power_add)
  also have "\<dots> \<le> x / 2 ^ 53" using lo by (simp add: divide_right_mono)
  finally have "\<bar>of_int (round_half_even (x * 2 ^ (52 + k))) / 2 ^ (52 + k) - x\<bar> \<le> x / 2 ^ 53"
    by (intro scaled_close) simp_all
  then show ?thesis
    using False unfolding to_double_pos_def Let_def k_def m_def z_def by simp
qed

lemma to_double_close: "\<bar>to_double x - x\<bar> \<le> \<bar>x\<bar> / 9007199254740992"
proof -
  have pos: "\<bar>to_double_pos y - y\<bar> \<le> y / 9007199254740992" if "0 < y" for y
    using to_double_pos_close [OF that] by simp
  consider "x = 0" | "x < 0" | "0 < x" by linarith
  then show ?thesis
  proof cases
    case 1
    then show ?thesis by (simp add: to_double_def)
  next
    case 2
    then have "to_double x = - to_double_pos (- x)" by (simp add: to_double_def)
    moreover have "\<bar>to_double_pos (- x) - (- x)\<bar> \<le> (- x) / 9007199254740992"
      using 2 by (intro pos) simp
    ultimately show ?thesis using 2 by linarith
  next
    case 3
    then have "to_double x = to_double_pos x" by (simp add: to_double_def)
    with pos [OF 3] 3 show ?thesis by linarith
  qed
qed

lemma to_double_nonneg: "0 \<le> x \<Longrightarrow> 0 \<le> to_double x"
  by (auto simp: to_double_def to_double_pos_def Let_def round_half_even_nonneg
      intro!: divide_nonneg_nonneg mult_nonneg_nonneg)

lemma py_round2_close:
  assumes "\<bar>x\<bar> \<le> 400"
  shows "\<bar>py_round2 x - x\<bar> \<le> 1 / 200 + 401 / 9007199254740992"
proof -
  define h :: rat where "h = of_int (round_half_even (x * 100)) / 100"
  have "\<bar>of_int (round_half_even (x * 100)) - x * 100\<bar> \<le> 1 / 2"
    by (rule round_half_even_close)
  then have "\<bar>h * 100 - x * 100\<bar> \<le> 1 / 2" by (simp add: h_def)
  then have hx: "\<bar>h - x\<bar> \<le> 1 / 200" by linarith
  then have "\<bar>h\<bar> \<le> 401" using assms by linarith
  with to_double_close [of h] have "\<bar>to_double h - h\<bar> \<le> 401 / 9007199254740992"
    by linarith
  with hx show ?thesis unfolding py_round2_def h_def [symmetric] by linarith
qed

lemma py_round2_nonneg: "0 \<le> x \<Longrightarrow> 0 \<le> py_round2 x"
  unfolding py_round2_def
  by (intro to_double_nonneg divide_nonneg_nonneg) (simp_all add: round_half_even_nonneg)

text \<open>
  The rate that the service computes from \<open>n\<close> jobs of which \<open>nf\<close> failed is within
  half a hundredth, and the rounding errors of three doubles, of the exact percentage.
\<close>

lemma rate_close:
  assumes "0 < n" and "nf \<le> n"
  shows "\<bar>py_round2 (to_double (to_double ((of_nat n - of_nat nf) / of_nat n) * 100))
           - (of_nat n - of_nat nf) / of_nat n * 100\<bar> \<le> 1 / 200 + 1 / 10 ^ 12"
    and "0 \<le> py_round2 (to_double (to_double ((of_nat n - of_nat nf) / of_nat n) * 100))"
proof -
  define p :: rat where "p = (of_nat n - of_nat nf) / of_nat n"
  define q where "q = to_double p"
  define x where "x = to_double (q * 100)"
  have p: "0 \<le> p" "p \<le> 1" using assms by (simp_all add: p_def field_simps)
  with to_double_close [of p] have qp: "\<bar>q - p\<bar> \<le> 1 / 9007199254740992"
    unfolding q_def by linarith
  then have q: "\<bar>q\<bar> \<le> 2" using p by linarith
  with to_double_close [of "q * 100"] have xq: "\<bar>x - q * 100\<bar> \<le> 200 / 9007199254740992"
    unfolding x_def by linarith
  then have "\<bar>x\<bar> \<le> 400" using q by linarith
  from py_round2_close [OF this]
  have rx: "\<bar>py_round2 x - x\<bar> \<le> 1 / 200 + 401 / 9007199254740992" .
  have "\<bar>py_round2 x - p * 100\<bar> \<le> 1 / 200 + 1 / 1000000000000"
    using rx xq qp by linarith
  then show "\<bar>py_round2 (to_double (to_double ((of_nat n - of_nat nf) / of_nat n) * 100))
           - (of_nat n - of_nat nf) / of_nat n * 100\<bar> \<le> 1 / 200 + 1 / 10 ^ 12"
    unfolding x_def q_def p_def by simp
  have "0 \<le> q" using p(1) unfolding q_def by (rule to_double_nonneg)
  then have "0 \<le> x" unfolding x_def by (intro to_double_nonneg) simp
  then show "0 \<le> py_round2 (to_double (to_double ((of_nat n - of_nat nf) / of_nat n) * 100))"
    unfolding x_def q_def p_def by (rule py_round2_nonneg)
qed

text \<open>Eight jobs of ten give the double 80, and two of three the double nearest to
  66.67. Of 160 jobs with 67 failed the exact percentage is 58.125, but the double
  product is above it, and the rate is the double nearest to 58.13.\<close>

lemma rate_160_67:
  "py_round2 (to_double (to_double ((of_nat (160 :: nat) - of_nat (67 :: nat)) / of_nat (160 :: nat)) * 100))
     = to_double (5813 / 100)"
  by code_simp

lemma rate_ten_two:
  "py_round2 (to_double (to_double ((of_nat (10 :: nat) - of_nat (2 :: nat)) / of_nat (10 :: nat)) * 100))
     = 80"
  by code_simp

lemma rate_three_one:
  "py_round2 (to_double (to_double ((of_nat (3 :: nat) - of_nat (1 :: nat)) / of_nat (3 :: nat)) * 100))
     = 4691484174324859 / 70368744177664"
  by code_simp

lemma get_job_statistics_fields:
  "get_job_statistics s uid =
     (let q = (if truthy_int uid then filter (\<lambda>j. user_id j = the uid) (jobs s) else jobs s)
      in \<lparr>total = length q,
          pending = length (filter (\<lambda>j. status j = Pending) q),
          running = length (filter (\<lambda>j. status j = Running) q),
          success = length (filter (\<lambda>j. status j = Success) q),
          failed = length (filter (\<lambda>j. status j = Failed) q),
          cancelled = length (filter (\<lambda>j. status j = Cancelled) q),
          success_rate =
            (if 0 < length q
             then py_round2 (to_double (to_double
                    ((of_nat (length q) - of_nat (length (filter (\<lambda>j. status j = Failed) q)))
                       / of_nat (length q)) * 100))
             else 0)\<rparr>)"
  by (simp add: get_job_statistics_def Let_def)

text \<open>
  Claim C8, as the code has it. The rows counted are all jobs, or the jobs of one user
  when a user id other than 0 is given. \<open>total\<close> is their number and each status has
  its count; the five counts add up to \<open>total\<close>. \<open>success_rate\<close> is 0 when \<open>total\<close> is
  0, and otherwise the percentage \<open>(total - failed) / total * 100\<close> as Python computes
  it in doubles and rounds it to two decimal places: it is not negative and lies
  within 0.005 (and a rounding error below \<open>1 / 10 ^ 12\<close>) of the exact percentage.
  Over ten jobs, seven succeeded, two failed and one cancelled, the result is
  \<open>total = 10\<close>, \<open>success = 7\<close>, \<open>failed = 2\<close>, \<open>cancelled = 1\<close> and
  \<open>success_rate = 80\<close>.
\<close>

theorem get_job_statistics_counts_and_rate:
  "(let q = (case uid of None \<Rightarrow> jobs s
             | Some u \<Rightarrow> if u = 0 then jobs s else filter (\<lambda>j. user_id j = u) (jobs s));
        n = (\<lambda>st. length (filter (\<lambda>j. status j = st) q));
        r = get_job_statistics s uid;
        ratio = (of_nat (total r) - of_nat (failed r)) / (of_nat (total r) :: rat)
    in total r = length q \<and> pending r = n Pending \<and> running r = n Running \<and>
       success r = n Success \<and> failed r = n Failed \<and> cancelled r = n Cancelled \<and>
       total r = pending r + running r + success r + failed r + cancelled r \<and>
       success_rate r =
         (if total r = 0 then 0 else py_round2 (to_double (to_double ratio * 100))) \<and>
       (0 < total r \<longrightarrow> \<bar>success_rate r - ratio * 100\<bar> \<le> 1 / 200 + 1 / 10 ^ 12) \<and>
       0 \<le> success_rate r) \<and>
   (length (jobs s) = 10 \<and> length (filter (\<lambda>j. status j = Success) (jobs s)) = 7 \<and>
    length (filter (\<lambda>j. status j = Failed) (jobs s)) = 2 \<and>
    length (filter (\<lambda>j. status j = Cancelled) (jobs s)) = 1
    \<longrightarrow> get_job_statistics s None =
          \<lparr>total = 10, pending = 0, running = 0, success = 7, failed = 2, cancelled = 1,
           success_rate = 80\<rparr>)"
proof -
  define q where
    "q = (if truthy_int uid then filter (\<lambda>j. user_id j = the uid) (jobs s) else jobs s)"
  have q': "(case uid of None \<Rightarrow> jobs s
             | Some u \<Rightarrow> if u = 0 then jobs s else filter (\<lambda>j. user_id j = u) (jobs s)) = q"
    by (simp add: q_def truthy_int_def split: option.splits)
  define nf where "nf = length (filter (\<lambda>j. status j = Failed) q)"
  define ratio :: rat where "ratio = (of_nat (length q) - of_nat nf) / of_nat (length q)"
  define rate where "rate = py_round2 (to_double (to_double ratio * 100))"
  have r: "get_job_statistics s uid =
      \<lparr>total = length q,
       pending = length (filter (\<lambda>j. status j = Pending) q),
       running = length (filter (\<lambda>j. status j = Running) q),
       success = length (filter (\<lambda>j. status j = Success) q),
       failed = nf,
       cancelled = length (filter (\<lambda>j. status j = Cancelled) q),
       success_rate = (if 0 < length q then rate else 0)\<rparr>"
    by (simp add: get_job_statistics_fields q_def [symmetric] nf_def rate_def ratio_def Let_def)
  have nf_le: "nf \<le> length q" by (simp add: nf_def)
  have close: "\<bar>rate - ratio * 100\<bar> \<le> 1 / 200 + 1 / 10 ^ 12" and nonneg: "0 \<le> rate"
    if "0 < length q"
    using rate_close [OF that nf_le] by (simp_all add: rate_def ratio_def)
  have general: "(let q = (case uid of None \<Rightarrow> jobs s
             | Some u \<Rightarrow> if u = 0 then jobs s else filter (\<lambda>j. user_id j = u) (jobs s));
        n = (\<lambda>st. length (filter (\<lambda>j. status j = st) q));
        r = get_job_statistics s uid;
        ratio = (of_nat (total r) - of_nat (failed r)) / (of_nat (total r) :: rat)
    in total r = length q \<and> pending r = n Pending \<and> running r = n Running \<and>
       success r = n Success \<and> failed r = n Failed \<and> cancelled r = n Cancelled \<and>
       total r = pending r + running r + success r + failed r + cancelled r \<and>
       success_rate r =
         (if total r = 0 then 0 else py_round2 (to_double (to_double ratio * 100))) \<and>
       (0 < total r \<longrightarrow> \<bar>success_rate r - ratio * 100\<bar> \<le> 1 / 200 + 1 / 10 ^ 12) \<and>
       0 \<le> success_rate r)"
    unfolding Let_def q' r
    using status_partition [of q] close nonneg
    by (simp add: nf_def rate_def ratio_def)
  have scenario: "get_job_statistics s None =
          \<lparr>total = 10, pending = 0, running = 0, success = 7, failed = 2, cancelled = 1,
           success_rate = 80\<rparr>"
    if "length (jobs s) = 10 \<and> length (filter (\<lambda>j. status j = Success) (jobs s)) = 7 \<and>
        length (filter (\<lambda>j. status j = Failed) (jobs s)) = 2 \<and>
        length (filter (\<lambda>j. status j = Cancelled) (jobs s)) = 1"
  proof -
    have "length (filter (\<lambda>j. status j = Pending) (jobs s)) = 0 \<and>
          length (filter (\<lambda>j. status j = Running) (jobs s)) = 0"
      using status_partition [of "jobs s"] that by linarith
    moreover have "jobs s \<noteq> []" using that by auto
    ultimately show ?thesis using that rate_ten_two
      by (simp add: get_job_statistics_fields truthy_int_def Let_def)
  qed
  from general scenario show ?thesis by blast
qed

text \<open>The theorem at the ten example jobs.\<close>

theorem get_job_statistics_counts_and_rate_witness:
  "length (jobs (ex_store ex_ten)) = 10 \<and>
   length (filter (\<lambda>j. status j = Success) (jobs (ex_store ex_ten))) = 7 \<and>
   length (filter (\<lambda>j. status j = Failed) (jobs (ex_store ex_ten))) = 2 \<and>
   length (filter (\<lambda>j. status j = Cancelled) (jobs (ex_store ex_ten))) = 1 \<and>
   get_job_statistics (ex_store ex_ten) None =
     \<lparr>total = 10, pending = 0, running = 0, success = 7, failed = 2, cancelled = 1,
      success_rate = 80\<rparr>"
proof -
  have h: "length (jobs (ex_store ex_ten)) = 10 \<and>
      length (filter (\<lambda>j. status j = Success) (jobs (ex_store ex_ten))) = 7 \<and>
      length (filter (\<lambda>j. status j = Failed) (jobs (ex_store ex_ten))) = 2 \<and>
      length (filter (\<lambda>j. status j = Cancelled) (jobs (ex_store ex_ten))) = 1"
    by (simp add: ex_store_def ex_ten_def ex_jobs_def)
  from get_job_statistics_counts_and_rate [where s = "ex_store ex_ten" and uid = None] h
  show ?thesis by blast
qed

text \<open>
  Against claim C8 as stated: of three jobs one failed, so \<open>(total - failed) / total\<close>
  is two thirds, and the rate returned is the double nearest to 66.67, which is not two
  thirds of 100.
\<close>

theorem get_job_statistics_rounding_counterexample:
  "total (get_job_statistics (ex_store ex_three) None) = 3 \<and>
   failed (get_job_statistics (ex_store ex_three) None) = 1 \<and>
   success_rate (get_job_statistics (ex_store ex_three) None)
     = 4691484174324859 / 70368744177664 \<and>
   (of_nat 3 - of_nat 1) / of_nat 3 * (100 :: rat) \<noteq> 4691484174324859 / 70368744177664"
  using rate_three_one
  by (simp add: get_job_statistics_fields truthy_int_def ex_store_def ex_three_def
      ex_jobs_def Let_def)

subsection \<open>Reading log lines\<close>

text \<open>The result of \<open>get_job_logs\<close> by cases of the limit: no limit and the limit 0 give
  every selected row, a negative limit is refused by the database, a positive one cuts the
  ordered rows.\<close>

lemma get_job_logs_cases:
  "get_job_logs s i start_line limit =
     (let ordered = sort_key line_number
            (filter (\<lambda>l. log_job_id l = i \<and>
                          (case start_line of None \<Rightarrow> True
                           | Some n \<Rightarrow> n = 0 \<or> n \<le> line_number l))
               (job_logs s))
      in case limit of
           None \<Rightarrow> Inr ordered
         | Some n \<Rightarrow> if n = 0 then Inr ordered
                     else if n < 0 then Inl ProgrammingError
                     else Inr (take (nat n) ordered))"
  by (auto simp: get_job_logs_def Let_def truthy_int_def filter_sort split: option.splits
      intro!: arg_cong [where f = "sort_key line_number"] arg_cong [where f = "take n" for n]
        filter_cong)

lemma scenario_D:
  assumes "get_job s i = Some j" and "filter (\<lambda>l. log_job_id l = i) (job_logs s) = []"
  shows "\<exists>e. get_job_logs
               (run s [AddJobLog i 0 ''line-0'' lv0 t0, AddJobLog i 1 ''line-1'' lv1 t1,
                       AddJobLog i 2 ''line-2'' lv2 t2])
               i (Some 1) (Some 1) = Inr [e] \<and>
             content e = ''line-1'' \<and> line_number e = 1"
  using assms
  by (simp add: add_job_log_def in_int_column_def get_job_def get_job_logs_def truthy_int_def
      Let_def)

text \<open>
  Claim C9, as the code has it. The rows selected are the stored rows of the job whose
  line number is at least \<open>start_line\<close> when \<open>start_line\<close> is given and is not 0, and
  all stored rows of the job when it is absent or 0. \<open>get_job_logs\<close> returns them in
  ascending order of line number: all of them when \<open>limit\<close> is absent or 0, the first
  \<open>limit\<close> of them when \<open>limit\<close> is positive (a negative limit is refused by the
  database). For a job without lines, after the lines \<open>line-0\<close>, \<open>line-1\<close>, \<open>line-2\<close>
  are appended under the numbers 0, 1, 2, reading with \<open>start_line = 1\<close> and
  \<open>limit = 1\<close> returns the one line \<open>line-1\<close>.
\<close>

theorem get_job_logs_reads_ordered_lines:
  "(let selected = (\<lambda>l. log_job_id l = i \<and>
                         (case start_line of None \<Rightarrow> True
                          | Some n \<Rightarrow> n = 0 \<or> n \<le> line_number l));
        ordered = sort_key line_number (filter selected (job_logs s))
    in get_job_logs s i start_line limit =
         (case limit of
            None \<Rightarrow> Inr ordered
          | Some n \<Rightarrow> if n = 0 then Inr ordered
                      else if n < 0 then Inl ProgrammingError
                      else Inr (take (nat n) ordered)) \<and>
       sorted (map line_number ordered) \<and>
       set ordered = {l \<in> set (job_logs s). selected l} \<and>
       length ordered = length (filter selected (job_logs s))) \<and>
   (\<forall>ls n. 0 < n \<and> get_job_logs s i start_line (Some n) = Inr ls
      \<longrightarrow> length ls \<le> nat n \<and> sorted (map line_number ls)) \<and>
   (get_job s i \<noteq> None \<and> filter (\<lambda>l. log_job_id l = i) (job_logs s) = []
      \<longrightarrow> (\<exists>e. get_job_logs
                   (run s [AddJobLog i 0 ''line-0'' lv0 t0, AddJobLog i 1 ''line-1'' lv1 t1,
                           AddJobLog i 2 ''line-2'' lv2 t2])
                   i (Some 1) (Some 1) = Inr [e] \<and>
                content e = ''line-1''))"
proof (intro conjI allI impI)
  show "let selected = (\<lambda>l. log_job_id l = i \<and>
                         (case start_line of None \<Rightarrow> True
                          | Some n \<Rightarrow> n = 0 \<or> n \<le> line_number l));
        ordered = sort_key line_number (filter selected (job_logs s))
    in get_job_logs s i start_line limit =
         (case limit of
            None \<Rightarrow> Inr ordered
          | Some n \<Rightarrow> if n = 0 then Inr ordered
                      else if n < 0 then Inl ProgrammingError
                      else Inr (take (nat n) ordered)) \<and>
       sorted (map line_number ordered) \<and>
       set ordered = {l \<in> set (job_logs s). selected l} \<and>
       length ordered = length (filter selected (job_logs s))"
    using get_job_logs_cases [of s i start_line limit] by (simp add: Let_def)
next
  fix ls n
  assume a: "0 < n \<and> get_job_logs s i start_line (Some n) = Inr ls"
  then obtain xs where "ls = take (nat n) (sort_key line_number xs)"
    using get_job_logs_cases [of s i start_line "Some n"] by (auto simp: Let_def)
  then show "length ls \<le> nat n" "sorted (map line_number ls)"
    by (simp_all add: sorted_wrt_take take_map [symmetric])
next
  assume "get_job s i \<noteq> None \<and> filter (\<lambda>l. log_job_id l = i) (job_logs s) = []"
  then obtain j where "get_job s i = Some j"
    and "filter (\<lambda>l. log_job_id l = i) (job_logs s) = []"
    by auto
  from scenario_D [OF this, of lv0 t0 lv1 t1 lv2 t2]
  show "\<exists>e. get_job_logs
               (run s [AddJobLog i 0 ''line-0'' lv0 t0, AddJobLog i 1 ''line-1'' lv1 t1,
                       AddJobLog i 2 ''line-2'' lv2 t2])
               i (Some 1) (Some 1) = Inr [e] \<and>
             content e = ''line-1''"
    by blast
qed

text \<open>The theorem at the pending example job and its three lines.\<close>

theorem get_job_logs_reads_ordered_lines_witness:
  "get_job (ex_store [ex_pending]) 1 \<noteq> None \<and>
   filter (\<lambda>l. log_job_id l = 1) (job_logs (ex_store [ex_pending])) = [] \<and>
   (\<exists>e. get_job_logs (run (ex_store [ex_pending]) ex_lines) 1 (Some 1) (Some 1) = Inr [e] \<and>
        content e = ''line-1'')"
proof -
  have g: "get_job (ex_store [ex_pending]) 1 \<noteq> None"
    by (simp add: get_job_ex_pending)
  have l: "filter (\<lambda>l. log_job_id l = 1) (job_logs (ex_store [ex_pending])) = []"
    by (simp add: ex_store_def)
  from get_job_logs_reads_ordered_lines
    [where s = "ex_store [ex_pending]" and i = 1 and ?lv0.0 = "Some ''INFO''" and ?t0.0 = 2
       and ?lv1.0 = "Some ''INFO''" and ?t1.0 = 3 and ?lv2.0 = "Some ''INFO''" and ?t2.0 = 4]
    g l
  show ?thesis unfolding ex_lines_def by blast
qed

text \<open>
  Against claim C9 as stated: the job has the three lines, and reading with
  \<open>limit = 0\<close> returns all three, not at most zero.
\<close>

theorem get_job_logs_limit_zero_counterexample:
  "map_sum id (map content)
     (get_job_logs (run (ex_store [ex_pending]) ex_lines) 1 None (Some 0))
     = Inr [''line-0'', ''line-1'', ''line-2'']"
  by (simp add: ex_lines_def add_job_log_def in_int_column_def get_job_def get_job_logs_def
      truthy_int_def ex_store_def ex_pending_def next_pk_def Let_def)

text \<open>
  Claim C10. \<open>start_line = 0\<close> gives what an absent \<open>start_line\<close> gives, whatever the
  limit, and \<open>limit = 0\<close> gives what an absent \<open>limit\<close> gives, whatever the start
  line. With both 0 the result is every stored row of the job, in order of line number:
  no lower bound is applied and nothing is cut.
\<close>

theorem get_job_logs_zero_is_absent:
  "get_job_logs s i (Some 0) limit = get_job_logs s i None limit \<and>
   get_job_logs s i start_line (Some 0) = get_job_logs s i start_line None \<and>
   get_job_logs s i (Some 0) (Some 0)
     = Inr (sort_key line_number (filter (\<lambda>l. log_job_id l = i) (job_logs s)))"
  by (simp add: get_job_logs_def truthy_int_def)

text \<open>The theorem at the three example lines: with both arguments 0 the three lines
  come back.\<close>

theorem get_job_logs_zero_is_absent_witness:
  "get_job_logs (run (ex_store [ex_pending]) ex_lines) 1 (Some 0) (Some 0)
     = get_job_logs (run (ex_store [ex_pending]) ex_lines) 1 None None \<and>
   map_sum id (map line_number)
     (get_job_logs (run (ex_store [ex_pending]) ex_lines) 1 (Some 0) (Some 0)) = Inr [0, 1, 2]"
proof -
  have "map_sum id (map line_number)
     (get_job_logs (run (ex_store [ex_pending]) ex_lines) 1 None None) = Inr [0, 1, 2]"
    by (simp add: ex_lines_def add_job_log_def in_int_column_def get_job_def get_job_logs_def
        truthy_int_def ex_store_def ex_pending_def next_pk_def Let_def)
  with get_job_logs_zero_is_absent
         [where s = "run (ex_store [ex_pending]) ex_lines" and i = 1 and limit = "Some 0"
            and start_line = None]
  show ?thesis by simp
qed

end
